theory Spec2Isabelle
  imports Main
begin

section \<open>Data model (types.ts, states.ts)\<close>

text \<open>
  Optional fields of the TypeScript interfaces (\<^verbatim>\<open>f?: T\<close>, \<^verbatim>\<open>T | undefined\<close>,
  \<^verbatim>\<open>T | null\<close>) are \<open>option\<close> values: \<open>None\<close> is the absent value. The identity claims of
  a parsed token are strings, as the documented \<^verbatim>\<open>KeycloakTokenParsed\<close> declares them.
  Field names that occur in several interfaces carry a suffix: \<open>_c\<close> for token claims,
  \<open>_p\<close> for profile fields, \<open>_kc\<close> for the fields read from the adapter object.
\<close>

record KeycloakConfig =
  url :: string
  realm :: string
  clientId :: string

datatype config_arg = ConfigObject KeycloakConfig | ConfigString string

text \<open>The adapter object as a reference: \<^verbatim>\<open>new Keycloak(config)\<close>.\<close>

datatype keycloak_ref = Keycloak config_arg

record KeycloakTokenParsed =
  exp_c :: "int option"
  sub_c :: "string option"
  preferred_username :: "string option"
  email_c :: "string option"
  name_c :: "string option"
  given_name :: "string option"
  family_name :: "string option"

record KeycloakProfile =
  id_p :: "string option"
  username_p :: "string option"
  email_p :: "string option"
  firstName_p :: "string option"
  lastName_p :: "string option"

record KeycloakError =
  error_code :: "string option"
  error_description :: "string option"

text \<open>A JavaScript \<^verbatim>\<open>Error\<close> object, identified by its message.\<close>

datatype js_error = Error string

text \<open>
  A thrown or rejected value, by what the conversion in the \<^verbatim>\<open>catch\<close> blocks makes of it:
  an \<^verbatim>\<open>Error\<close> instance (a \<^verbatim>\<open>TypeError\<close> is one); any other value that \<^verbatim>\<open>String(value)\<close>
  converts, kept as the string it yields; or a value on which the conversion itself throws
  (an object without a primitive conversion, such as \<^verbatim>\<open>Object.create(null)\<close>, makes
  \<^verbatim>\<open>String\<close> raise a \<^verbatim>\<open>TypeError\<close>), kept as what the conversion throws.
\<close>

datatype thrown = ErrorInstance js_error | OtherValue string | Unconvertible thrown

text \<open>
  \<^verbatim>\<open>error instanceof Error ? error : new Error(String(error))\<close>: the \<^verbatim>\<open>Error\<close> to record
  (\<open>Inr\<close>), or what the expression throws instead (\<open>Inl\<close>).
\<close>

fun to_Error :: "thrown \<Rightarrow> thrown + js_error" where
  "to_Error (ErrorInstance e) = Inr e"
| "to_Error (OtherValue s) = Inr (Error s)"
| "to_Error (Unconvertible raised) = Inl raised"

text \<open>A value that may be \<^verbatim>\<open>undefined\<close> or \<^verbatim>\<open>null\<close>; \<^verbatim>\<open>v ?? undefined\<close> maps both to absent.\<close>

datatype 'a nullish = Undefined | Null | Defined 'a

fun nullish_or_undefined :: "'a nullish \<Rightarrow> 'a option" where
  "nullish_or_undefined Undefined = None"
| "nullish_or_undefined Null = None"
| "nullish_or_undefined (Defined v) = Some v"

text \<open>
  The fields of the adapter object that the wrapper reads, as they stand at the moment of
  the read (an adapter snapshot).
\<close>

record KeycloakInstance =
  authenticated :: "bool option"
  token_kc :: "string option"
  tokenParsed_kc :: "KeycloakTokenParsed option"
  idToken_kc :: "string option"
  idTokenParsed_kc :: "KeycloakTokenParsed option"
  refreshToken_kc :: "string option"
  refreshTokenParsed_kc :: "KeycloakTokenParsed option"
  subject_kc :: "string option"
  realmAccess_kc :: "string list option"
  resourceAccess_kc :: "(string \<rightharpoonup> string list) option"
  timeSkew_kc :: "int nullish"
  responseMode_kc :: "string option"
  flow_kc :: "string option"
  responseType_kc :: "string option"

text \<open>
  The reactive state: one field per \<^verbatim>\<open>Ref\<close> of \<^verbatim>\<open>KeycloakState\<close>. The field \<^verbatim>\<open>instance\<close> of the
  source is \<open>instance_ref\<close> here: it holds the reference to the adapter object, or \<^verbatim>\<open>null\<close>.
\<close>

record KeycloakState =
  instance_ref :: "keycloak_ref option"
  isAuthenticated :: bool
  isReady :: bool
  token :: "string option"
  tokenParsed :: "KeycloakTokenParsed option"
  idToken :: "string option"
  idTokenParsed :: "KeycloakTokenParsed option"
  refreshToken :: "string option"
  refreshTokenParsed :: "KeycloakTokenParsed option"
  subject :: "string option"
  profile :: "KeycloakProfile option"
  realmAccess :: "string list option"
  resourceAccess :: "(string \<rightharpoonup> string list) option"
  timeSkew :: "int option"
  responseMode :: "string option"
  flow :: "string option"
  adapter :: "string option"
  responseType :: "string option"
  isLoading :: bool
  error :: "js_error option"

definition createKeycloakState :: KeycloakState where
  "createKeycloakState =
     \<lparr> instance_ref = None, isAuthenticated = False, isReady = False,
       token = None, tokenParsed = None, idToken = None, idTokenParsed = None,
       refreshToken = None, refreshTokenParsed = None, subject = None, profile = None,
       realmAccess = None, resourceAccess = None, timeSkew = None, responseMode = None,
       flow = None, adapter = None, responseType = None, isLoading = False, error = None \<rparr>"

section \<open>State synchronisation (composable.ts)\<close>

text \<open>\<^verbatim>\<open>instance.authenticated || false\<close>\<close>

fun or_false :: "bool option \<Rightarrow> bool" where
  "or_false (Some b) = b"
| "or_false None = False"

definition updateState :: "KeycloakState \<Rightarrow> KeycloakInstance \<Rightarrow> KeycloakState" where
  "updateState state inst =
     state\<lparr> isAuthenticated := or_false (authenticated inst),
            token := token_kc inst,
            tokenParsed := tokenParsed_kc inst,
            idToken := idToken_kc inst,
            idTokenParsed := idTokenParsed_kc inst,
            refreshToken := refreshToken_kc inst,
            refreshTokenParsed := refreshTokenParsed_kc inst,
            subject := subject_kc inst,
            realmAccess := realmAccess_kc inst,
            resourceAccess := resourceAccess_kc inst,
            timeSkew := nullish_or_undefined (timeSkew_kc inst),
            responseMode := responseMode_kc inst,
            flow := flow_kc inst,
            responseType := responseType_kc inst \<rparr>"

text \<open>The state never shows an authenticated session without an access token.\<close>

definition token_invariant :: "KeycloakState \<Rightarrow> bool" where
  "token_invariant state = (\<not> (isAuthenticated state \<and> token state = None))"

text \<open>An adapter snapshot that reports an authenticated session carries its token.\<close>

definition carries_token :: "KeycloakInstance \<Rightarrow> bool" where
  "carries_token inst = (\<not> (authenticated inst = Some True \<and> token_kc inst = None))"

section \<open>Derived getters (states.ts)\<close>

text \<open>JavaScript truthiness of an optional string: absent and the empty string are falsy.\<close>

fun truthy :: "string option \<Rightarrow> bool" where
  "truthy None = False"
| "truthy (Some s) = (s \<noteq> [])"

text \<open>\<^verbatim>\<open>a || b\<close> on optional strings: \<open>a\<close> when it is truthy, otherwise \<open>b\<close> as it is.\<close>

definition js_or :: "string option \<Rightarrow> string option \<Rightarrow> string option" where
  "js_or a b = (if truthy a then a else b)"

text \<open>\<^verbatim>\<open>a || 'literal'\<close>: the right operand is a plain string.\<close>

fun or_default :: "string option \<Rightarrow> string \<Rightarrow> string" where
  "or_default None d = d"
| "or_default (Some s) d = (if s = [] then d else s)"

text \<open>Optional chaining \<^verbatim>\<open>obj?.field\<close>.\<close>

fun chain :: "'a option \<Rightarrow> ('a \<Rightarrow> 'b option) \<Rightarrow> 'b option" where
  "chain None f = None"
| "chain (Some obj) f = f obj"

text \<open>
  The getters that are functions of the state alone, and the two role checks, which are
  plain functions that ask the adapter at every call; the adapter's answer is a parameter.
\<close>

definition username :: "KeycloakState \<Rightarrow> string option" where
  "username state =
     js_or (chain (tokenParsed state) preferred_username) (chain (profile state) username_p)"

definition email :: "KeycloakState \<Rightarrow> string option" where
  "email state = js_or (chain (tokenParsed state) email_c) (chain (profile state) email_p)"

text \<open>The template string \<^verbatim>\<open>`${firstName} ${lastName}`\<close>, built when both parts are truthy.\<close>

fun template_name :: "string option \<Rightarrow> string option \<Rightarrow> string option" where
  "template_name (Some f) (Some l) = (if f \<noteq> [] \<and> l \<noteq> [] then Some (f @ '' '' @ l) else None)"
| "template_name _ _ = None"

definition fullName :: "KeycloakState \<Rightarrow> string option" where
  "fullName state =
     (case template_name (chain (profile state) firstName_p) (chain (profile state) lastName_p) of
        Some full \<Rightarrow> Some full
      | None \<Rightarrow> chain (tokenParsed state) name_c)"

definition firstName :: "KeycloakState \<Rightarrow> string option" where
  "firstName state =
     js_or (chain (profile state) firstName_p) (chain (tokenParsed state) given_name)"

definition lastName :: "KeycloakState \<Rightarrow> string option" where
  "lastName state =
     js_or (chain (profile state) lastName_p) (chain (tokenParsed state) family_name)"

definition hasRealmRole :: "KeycloakState \<Rightarrow> (string \<Rightarrow> bool) \<Rightarrow> string \<Rightarrow> bool" where
  "hasRealmRole state kc_hasRealmRole role =
     (if instance_ref state = None then False else kc_hasRealmRole role)"

definition hasResourceRole ::
  "KeycloakState \<Rightarrow> (string \<Rightarrow> string option \<Rightarrow> bool) \<Rightarrow> string \<Rightarrow> string option \<Rightarrow> bool" where
  "hasResourceRole state kc_hasResourceRole role resource =
     (if instance_ref state = None then False else kc_hasResourceRole role resource)"

definition realmRoles :: "KeycloakState \<Rightarrow> string list" where
  "realmRoles state = (case realmAccess state of None \<Rightarrow> [] | Some roles \<Rightarrow> roles)"

definition resourceRoles :: "KeycloakState \<Rightarrow> string \<Rightarrow> string list" where
  "resourceRoles state resource =
     (case chain (resourceAccess state) (\<lambda>access. access resource) of
        None \<Rightarrow> [] | Some roles \<Rightarrow> roles)"

section \<open>Adapter events (setupCallbacks)\<close>

text \<open>
  The caller's callbacks are user code; the model keeps which of them are supplied and
  records every forwarded call, in order.
\<close>

record KeycloakCallbacks =
  onReady_cb :: bool
  onAuthSuccess_cb :: bool
  onAuthError_cb :: bool
  onAuthRefreshSuccess_cb :: bool
  onAuthRefreshError_cb :: bool
  onAuthLogout_cb :: bool
  onTokenExpired_cb :: bool

datatype callback_call =
    CalledOnReady bool
  | CalledOnAuthSuccess
  | CalledOnAuthError KeycloakError
  | CalledOnAuthRefreshSuccess
  | CalledOnAuthRefreshError
  | CalledOnAuthLogout
  | CalledOnTokenExpired

text \<open>\<^verbatim>\<open>callbacks?.onX\<close> is defined.\<close>

fun supplied :: "KeycloakCallbacks option \<Rightarrow> (KeycloakCallbacks \<Rightarrow> bool) \<Rightarrow> bool" where
  "supplied None cb = False"
| "supplied (Some callbacks) cb = cb callbacks"

text \<open>\<^verbatim>\<open>callbacks?.onX?.()\<close>\<close>

definition forward ::
  "KeycloakCallbacks option \<Rightarrow> (KeycloakCallbacks \<Rightarrow> bool) \<Rightarrow> callback_call \<Rightarrow> callback_call list" where
  "forward callbacks cb call = (if supplied callbacks cb then [call] else [])"

definition onReady ::
  "KeycloakCallbacks option \<Rightarrow> KeycloakState \<Rightarrow> KeycloakInstance \<Rightarrow> bool option \<Rightarrow>
   KeycloakState \<times> callback_call list" where
  "onReady callbacks state inst authenticated_arg =
     (updateState (state\<lparr>isReady := True, isLoading := False\<rparr>) inst,
      (case authenticated_arg of
         None \<Rightarrow> []
       | Some a \<Rightarrow> forward callbacks onReady_cb (CalledOnReady a)))"

definition onAuthSuccess ::
  "KeycloakCallbacks option \<Rightarrow> KeycloakState \<Rightarrow> KeycloakInstance \<Rightarrow>
   KeycloakState \<times> callback_call list" where
  "onAuthSuccess callbacks state inst =
     (updateState state inst, forward callbacks onAuthSuccess_cb CalledOnAuthSuccess)"

definition onAuthError ::
  "KeycloakCallbacks option \<Rightarrow> KeycloakState \<Rightarrow> KeycloakError option \<Rightarrow>
   KeycloakState \<times> callback_call list" where
  "onAuthError callbacks state err =
     (state\<lparr> error := Some (Error (or_default
                 (js_or (chain err error_description) (chain err error_code))
                 ''Authentication error'')),
             isLoading := False \<rparr>,
      (case err of
         None \<Rightarrow> []
       | Some e \<Rightarrow> forward callbacks onAuthError_cb (CalledOnAuthError e)))"

definition onAuthRefreshSuccess ::
  "KeycloakCallbacks option \<Rightarrow> KeycloakState \<Rightarrow> KeycloakInstance \<Rightarrow>
   KeycloakState \<times> callback_call list" where
  "onAuthRefreshSuccess callbacks state inst =
     (updateState state inst,
      forward callbacks onAuthRefreshSuccess_cb CalledOnAuthRefreshSuccess)"

definition onAuthRefreshError ::
  "KeycloakCallbacks option \<Rightarrow> KeycloakState \<Rightarrow> KeycloakState \<times> callback_call list" where
  "onAuthRefreshError callbacks state =
     (state\<lparr>isAuthenticated := False\<rparr>,
      forward callbacks onAuthRefreshError_cb CalledOnAuthRefreshError)"

definition onAuthLogout ::
  "KeycloakCallbacks option \<Rightarrow> KeycloakState \<Rightarrow> KeycloakState \<times> callback_call list" where
  "onAuthLogout callbacks state =
     (state\<lparr>isAuthenticated := False, profile := None\<rparr>,
      forward callbacks onAuthLogout_cb CalledOnAuthLogout)"

definition onTokenExpired ::
  "KeycloakCallbacks option \<Rightarrow> KeycloakState \<Rightarrow> KeycloakState \<times> callback_call list" where
  "onTokenExpired callbacks state = (state, forward callbacks onTokenExpired_cb CalledOnTokenExpired)"

text \<open>
  The seven events of the adapter, each with the argument it passes and, where the
  handler reads the adapter object, the snapshot it finds there.
\<close>

datatype adapter_event =
    Ready "bool option" KeycloakInstance
  | AuthSuccess KeycloakInstance
  | AuthError "KeycloakError option"
  | AuthRefreshSuccess KeycloakInstance
  | AuthRefreshError
  | AuthLogout
  | TokenExpired

fun fire ::
  "KeycloakCallbacks option \<Rightarrow> KeycloakState \<Rightarrow> adapter_event \<Rightarrow>
   KeycloakState \<times> callback_call list" where
  "fire callbacks state (Ready a inst) = onReady callbacks state inst a"
| "fire callbacks state (AuthSuccess inst) = onAuthSuccess callbacks state inst"
| "fire callbacks state (AuthError err) = onAuthError callbacks state err"
| "fire callbacks state (AuthRefreshSuccess inst) = onAuthRefreshSuccess callbacks state inst"
| "fire callbacks state AuthRefreshError = onAuthRefreshError callbacks state"
| "fire callbacks state AuthLogout = onAuthLogout callbacks state"
| "fire callbacks state TokenExpired = onTokenExpired callbacks state"

section \<open>Facade operations (initKeycloak in composable.ts)\<close>

text \<open>
  An option bag handed to the adapter unchanged (\<^verbatim>\<open>KeycloakInitOptions\<close>,
  \<^verbatim>\<open>KeycloakLoginOptions\<close>, ...): its entries, \<open>[]\<close> for the empty object.
\<close>

type_synonym js_options = "(string \<times> string) list"

text \<open>A call that the wrapper delegates to the adapter, with the arguments it passes.\<close>

datatype adapter_call =
    CallInit js_options
  | CallLogin "js_options option"
  | CallLogout "js_options option"
  | CallRegister "js_options option"
  | CallAccountManagement
  | CallUpdateToken int
  | CallLoadUserProfile
  | CallClearToken
  | CallCreateLoginUrl "js_options option"
  | CallCreateLogoutUrl "js_options option"
  | CallCreateRegisterUrl "js_options option"
  | CallCreateAccountUrl "js_options option"

text \<open>How a promise settles; the same type serves for what the caller of a facade operation awaits.\<close>

datatype 'a settled = Resolved 'a | Rejected thrown

definition DEFAULT_MIN_VALIDITY :: int where
  "DEFAULT_MIN_VALIDITY = 5"

definition not_initialized :: js_error where
  "not_initialized = Error ''Keycloak instance not initialized''"

text \<open>
  Every operation first checks the adapter handle and throws when it is missing; then it
  calls the adapter. An asynchronous operation is given in two parts: \<open>_begin\<close> runs up to
  the \<^verbatim>\<open>await\<close> and names the adapter call it made, \<open>_settle\<close> runs from the moment the
  adapter's promise settles, on the state as it is then. The outcome of the adapter and the
  snapshot of its fields at that moment are parameters. In a \<^verbatim>\<open>catch\<close> block the conversion
  comes before the assignment to \<^verbatim>\<open>error\<close> and before the \<^verbatim>\<open>throw\<close>: when it throws, nothing
  is recorded and its exception leaves the block (in \<^verbatim>\<open>init\<close>, through the \<^verbatim>\<open>finally\<close>).
\<close>

definition init_begin ::
  "KeycloakState \<Rightarrow> js_options option \<Rightarrow> js_error + KeycloakState \<times> adapter_call" where
  "init_begin state options =
     (case instance_ref state of
        None \<Rightarrow> Inl not_initialized
      | Some kc \<Rightarrow>
          Inr (state\<lparr>isLoading := True, error := None\<rparr>,
               CallInit (case options of None \<Rightarrow> [] | Some opts \<Rightarrow> opts)))"

definition init_settle ::
  "KeycloakState \<Rightarrow> bool settled \<Rightarrow> KeycloakInstance \<Rightarrow> KeycloakState \<times> bool settled" where
  "init_settle state outcome inst =
     (case outcome of
        Resolved authenticated_flag \<Rightarrow>
          ((updateState state inst)\<lparr>isLoading := False\<rparr>, Resolved authenticated_flag)
      | Rejected err \<Rightarrow>
          (case to_Error err of
             Inr recorded \<Rightarrow>
               (state\<lparr>error := Some recorded, isLoading := False\<rparr>, Rejected err)
           | Inl raised \<Rightarrow> (state\<lparr>isLoading := False\<rparr>, Rejected raised)))"

definition updateToken_begin ::
  "KeycloakState \<Rightarrow> int option \<Rightarrow> js_error + KeycloakState \<times> adapter_call" where
  "updateToken_begin state minValidity =
     (case instance_ref state of
        None \<Rightarrow> Inl not_initialized
      | Some kc \<Rightarrow>
          Inr (state,
               CallUpdateToken (case minValidity of None \<Rightarrow> DEFAULT_MIN_VALIDITY | Some v \<Rightarrow> v)))"

definition updateToken_settle ::
  "KeycloakState \<Rightarrow> bool settled \<Rightarrow> KeycloakInstance \<Rightarrow> KeycloakState \<times> bool settled" where
  "updateToken_settle state outcome inst =
     (case outcome of
        Resolved refreshed \<Rightarrow>
          ((if refreshed then updateState state inst else state), Resolved refreshed)
      | Rejected err \<Rightarrow>
          (case to_Error err of
             Inr recorded \<Rightarrow> (state\<lparr>error := Some recorded\<rparr>, Rejected err)
           | Inl raised \<Rightarrow> (state, Rejected raised)))"

definition loadUserProfile_begin :: "KeycloakState \<Rightarrow> js_error + KeycloakState \<times> adapter_call" where
  "loadUserProfile_begin state =
     (case instance_ref state of
        None \<Rightarrow> Inl not_initialized
      | Some kc \<Rightarrow> Inr (state, CallLoadUserProfile))"

definition loadUserProfile_settle ::
  "KeycloakState \<Rightarrow> KeycloakProfile settled \<Rightarrow> KeycloakState \<times> KeycloakProfile settled" where
  "loadUserProfile_settle state outcome =
     (case outcome of
        Resolved prof \<Rightarrow> (state\<lparr>profile := Some prof\<rparr>, Resolved prof)
      | Rejected err \<Rightarrow>
          (case to_Error err of
             Inr recorded \<Rightarrow> (state\<lparr>error := Some recorded\<rparr>, Rejected err)
           | Inl raised \<Rightarrow> (state, Rejected raised)))"

text \<open>
  \<^verbatim>\<open>clearToken\<close> is synchronous: the adapter clears its tokens (and may fire events while it
  does), then the state is synchronised from what the adapter holds afterwards.
\<close>

definition clearToken_begin :: "KeycloakState \<Rightarrow> js_error + KeycloakState \<times> adapter_call" where
  "clearToken_begin state =
     (case instance_ref state of
        None \<Rightarrow> Inl not_initialized
      | Some kc \<Rightarrow> Inr (state, CallClearToken))"

definition clearToken_finish :: "KeycloakState \<Rightarrow> KeycloakInstance \<Rightarrow> KeycloakState" where
  "clearToken_finish state inst = updateState state inst"

text \<open>
  \<^verbatim>\<open>login\<close>, \<^verbatim>\<open>logout\<close>, \<^verbatim>\<open>register\<close>, \<^verbatim>\<open>accountManagement\<close> and the four URL builders only
  delegate: the handle check, the adapter call, and the adapter's own result handed back.
\<close>

definition delegate :: "KeycloakState \<Rightarrow> adapter_call \<Rightarrow> js_error + KeycloakState \<times> adapter_call" where
  "delegate state call =
     (case instance_ref state of
        None \<Rightarrow> Inl not_initialized
      | Some kc \<Rightarrow> Inr (state, call))"

definition login :: "KeycloakState \<Rightarrow> js_options option \<Rightarrow> js_error + KeycloakState \<times> adapter_call" where
  "login state options = delegate state (CallLogin options)"

definition logout :: "KeycloakState \<Rightarrow> js_options option \<Rightarrow> js_error + KeycloakState \<times> adapter_call" where
  "logout state options = delegate state (CallLogout options)"

definition register :: "KeycloakState \<Rightarrow> js_options option \<Rightarrow> js_error + KeycloakState \<times> adapter_call" where
  "register state options = delegate state (CallRegister options)"

definition accountManagement ::
  "KeycloakState \<Rightarrow> js_options option \<Rightarrow> js_error + KeycloakState \<times> adapter_call" where
  "accountManagement state options = delegate state CallAccountManagement"

definition createLoginUrl ::
  "KeycloakState \<Rightarrow> js_options option \<Rightarrow> js_error + KeycloakState \<times> adapter_call" where
  "createLoginUrl state options = delegate state (CallCreateLoginUrl options)"

definition createLogoutUrl ::
  "KeycloakState \<Rightarrow> js_options option \<Rightarrow> js_error + KeycloakState \<times> adapter_call" where
  "createLogoutUrl state options = delegate state (CallCreateLogoutUrl options)"

definition createRegisterUrl ::
  "KeycloakState \<Rightarrow> js_options option \<Rightarrow> js_error + KeycloakState \<times> adapter_call" where
  "createRegisterUrl state options = delegate state (CallCreateRegisterUrl options)"

definition createAccountUrl ::
  "KeycloakState \<Rightarrow> js_options option \<Rightarrow> js_error + KeycloakState \<times> adapter_call" where
  "createAccountUrl state options = delegate state (CallCreateAccountUrl options)"

section \<open>Everything that can happen to the state\<close>

text \<open>
  One step of the single-threaded event loop: an adapter event, the synchronous part of a
  facade operation, or the continuation of a pending one. A sequence of steps is one
  interleaving; any list is admitted, so every interleaving is covered.
\<close>

datatype action =
    Event adapter_event
  | InitBegin "js_options option"
  | InitSettle "bool settled" KeycloakInstance
  | UpdateTokenBegin "int option"
  | UpdateTokenSettle "bool settled" KeycloakInstance
  | LoadUserProfileBegin
  | LoadUserProfileSettle "KeycloakProfile settled"
  | ClearTokenBegin
  | ClearTokenFinish KeycloakInstance
  | Login "js_options option"
  | Logout "js_options option"
  | Register "js_options option"
  | AccountManagement "js_options option"
  | CreateLoginUrl "js_options option"
  | CreateLogoutUrl "js_options option"
  | CreateRegisterUrl "js_options option"
  | CreateAccountUrl "js_options option"

text \<open>The state after the synchronous part of an operation: unchanged when it threw.\<close>

fun state_after :: "KeycloakState \<Rightarrow> js_error + KeycloakState \<times> adapter_call \<Rightarrow> KeycloakState" where
  "state_after state (Inl err) = state"
| "state_after state (Inr (state', call)) = state'"

fun step :: "KeycloakCallbacks option \<Rightarrow> KeycloakState \<Rightarrow> action \<Rightarrow> KeycloakState" where
  "step callbacks state (Event ev) = fst (fire callbacks state ev)"
| "step callbacks state (InitBegin options) = state_after state (init_begin state options)"
| "step callbacks state (InitSettle outcome inst) = fst (init_settle state outcome inst)"
| "step callbacks state (UpdateTokenBegin mv) = state_after state (updateToken_begin state mv)"
| "step callbacks state (UpdateTokenSettle outcome inst) = fst (updateToken_settle state outcome inst)"
| "step callbacks state LoadUserProfileBegin = state_after state (loadUserProfile_begin state)"
| "step callbacks state (LoadUserProfileSettle outcome) = fst (loadUserProfile_settle state outcome)"
| "step callbacks state ClearTokenBegin = state_after state (clearToken_begin state)"
| "step callbacks state (ClearTokenFinish inst) = clearToken_finish state inst"
| "step callbacks state (Login options) = state_after state (login state options)"
| "step callbacks state (Logout options) = state_after state (logout state options)"
| "step callbacks state (Register options) = state_after state (register state options)"
| "step callbacks state (AccountManagement options) = state_after state (accountManagement state options)"
| "step callbacks state (CreateLoginUrl options) = state_after state (createLoginUrl state options)"
| "step callbacks state (CreateLogoutUrl options) = state_after state (createLogoutUrl state options)"
| "step callbacks state (CreateRegisterUrl options) = state_after state (createRegisterUrl state options)"
| "step callbacks state (CreateAccountUrl options) = state_after state (createAccountUrl state options)"

definition run :: "KeycloakCallbacks option \<Rightarrow> KeycloakState \<Rightarrow> action list \<Rightarrow> KeycloakState" where
  "run callbacks state actions = foldl (step callbacks) state actions"

text \<open>The one kind of step that is the adapter's ready event.\<close>

fun is_ready_event :: "action \<Rightarrow> bool" where
  "is_ready_event (Event (Ready a inst)) = True"
| "is_ready_event _ = False"

text \<open>
  A whole call of an asynchronous operation, as its caller sees it: the synchronous part,
  then whatever else happens while the adapter works (\<open>meanwhile\<close>), then the continuation.
  The result is the final state and what the caller's \<^verbatim>\<open>await\<close> receives.
\<close>

definition init ::
  "KeycloakCallbacks option \<Rightarrow> KeycloakState \<Rightarrow> js_options option \<Rightarrow> action list \<Rightarrow>
   bool settled \<Rightarrow> KeycloakInstance \<Rightarrow> KeycloakState \<times> bool settled" where
  "init callbacks state options meanwhile outcome inst =
     (case init_begin state options of
        Inl err \<Rightarrow> (state, Rejected (ErrorInstance err))
      | Inr (state', call) \<Rightarrow> init_settle (run callbacks state' meanwhile) outcome inst)"



section \<open>The shared handle (initKeycloak, useKeycloak)\<close>

definition createKeycloakInstance :: "config_arg \<Rightarrow> keycloak_ref" where
  "createKeycloakInstance config =
     (case config of
        ConfigString location \<Rightarrow> Keycloak (ConfigString location)
      | ConfigObject obj \<Rightarrow> Keycloak (ConfigObject obj))"

text \<open>
  What the module-level \<^verbatim>\<open>globalState\<close> holds once it exists: the state, and the callbacks
  that \<^verbatim>\<open>setupCallbacks\<close> bound into the adapter's seven handlers.
\<close>

record session =
  state_of :: KeycloakState
  callbacks_of :: "KeycloakCallbacks option"

text \<open>
  The object \<^verbatim>\<open>initKeycloak\<close> returns closes over the module's one state and has no data
  of its own: every such object is the same handle.
\<close>

datatype facade = Facade

text \<open>
  \<^verbatim>\<open>initKeycloak(config, callbacks)\<close>: the argument is the module's \<^verbatim>\<open>globalState\<close>
  (\<open>None\<close> for \<^verbatim>\<open>null\<close>), the result is what it holds afterwards.
\<close>

definition initKeycloak ::
  "session option \<Rightarrow> config_arg \<Rightarrow> KeycloakCallbacks option \<Rightarrow> session" where
  "initKeycloak globalState config callbacks =
     (let current = (case globalState of
                       None \<Rightarrow> \<lparr>state_of = createKeycloakState, callbacks_of = None\<rparr>
                     | Some existing \<Rightarrow> existing)
      in case instance_ref (state_of current) of
           None \<Rightarrow>
             \<lparr> state_of = (state_of current)\<lparr>instance_ref := Some (createKeycloakInstance config)\<rparr>,
               callbacks_of = callbacks \<rparr>
         | Some kc \<Rightarrow> current)"

text \<open>\<^verbatim>\<open>Symbol('keycloak')\<close> is a key of its own; an application may provide under others.\<close>

datatype injection_key = KEYCLOAK_INJECTION_KEY | OtherKey string

record app =
  provides :: "injection_key \<rightharpoonup> facade"
  globalProperties :: "string \<rightharpoonup> facade"

definition createApp :: app where
  "createApp = \<lparr>provides = Map.empty, globalProperties = Map.empty\<rparr>"

text \<open>
  Vue's \<^verbatim>\<open>inject\<close>: the value provided under the key in the calling context, or
  \<^verbatim>\<open>undefined\<close>. The context is \<open>None\<close> when the call is made outside any application.
\<close>

definition inject :: "(injection_key \<rightharpoonup> 'v) option \<Rightarrow> injection_key \<Rightarrow> 'v option" where
  "inject context key = (case context of None \<Rightarrow> None | Some provided \<Rightarrow> provided key)"

definition not_installed :: js_error where
  "not_installed = Error
     ''Keycloak not initialized. Make sure to install the plugin with app.use(createKeycloakPlugin(config))''"

definition useKeycloak :: "(injection_key \<rightharpoonup> facade) option \<Rightarrow> js_error + facade" where
  "useKeycloak context =
     (case inject context KEYCLOAK_INJECTION_KEY of
        None \<Rightarrow> Inl not_installed
      | Some keycloak \<Rightarrow> Inr keycloak)"

section \<open>The plugin (plugin.ts)\<close>

record KeycloakPluginOptions =
  config_o :: config_arg
  initOptions_o :: "js_options option"
  autoInit_o :: "bool option"
  callbacks_o :: "KeycloakCallbacks option"

text \<open>
  \<^verbatim>\<open>install(app)\<close> runs synchronously. Its result is the module's state, the application,
  and what became of the automatic \<^verbatim>\<open>init\<close>: \<open>None\<close> when it was not called, otherwise the
  result of the synchronous part of \<^verbatim>\<open>init\<close> (\<open>Inl\<close>: it threw, so its promise is rejected
  at once; \<open>Inr\<close>: the adapter call is pending). No statement of \<^verbatim>\<open>install\<close> can throw:
  \<^verbatim>\<open>init\<close> is an \<^verbatim>\<open>async\<close> function, so even its own \<^verbatim>\<open>throw\<close> only rejects its promise.
\<close>

definition install ::
  "KeycloakPluginOptions \<Rightarrow> session option \<Rightarrow> app \<Rightarrow>
   session \<times> app \<times> (js_error + adapter_call) option" where
  "install options globalState application =
     (let keycloak = initKeycloak globalState (config_o options) (callbacks_o options);
          provided = application\<lparr>provides := (provides application)(KEYCLOAK_INJECTION_KEY \<mapsto> Facade)\<rparr>;
          installed = provided\<lparr>globalProperties := (globalProperties provided)(''$keycloak'' \<mapsto> Facade)\<rparr>
      in if autoInit_o options \<noteq> Some False then
           (case init_begin (state_of keycloak) (initOptions_o options) of
              Inl err \<Rightarrow> (keycloak, installed, Some (Inl err))
            | Inr (state', call) \<Rightarrow> (keycloak\<lparr>state_of := state'\<rparr>, installed, Some (Inr call)))
         else (keycloak, installed, None))"




section \<open>Values for the examples\<close>

text \<open>The empty objects \<^verbatim>\<open>{}\<close> as claims and as a profile, and an adapter that holds nothing yet.\<close>

definition no_claims :: KeycloakTokenParsed where
  "no_claims = \<lparr> exp_c = None, sub_c = None, preferred_username = None, email_c = None,
                  name_c = None, given_name = None, family_name = None \<rparr>"

definition no_fields :: KeycloakProfile where
  "no_fields = \<lparr> id_p = None, username_p = None, email_p = None, firstName_p = None,
                  lastName_p = None \<rparr>"

definition fresh_adapter :: KeycloakInstance where
  "fresh_adapter =
     \<lparr> authenticated = None, token_kc = None, tokenParsed_kc = None, idToken_kc = None,
       idTokenParsed_kc = None, refreshToken_kc = None, refreshTokenParsed_kc = None,
       subject_kc = None, realmAccess_kc = None, resourceAccess_kc = None,
       timeSkew_kc = Undefined, responseMode_kc = None, flow_kc = None, responseType_kc = None \<rparr>"

text \<open>
  The configuration of the end-to-end scenarios, the state right after the facade is
  constructed from it, and plugin options that leave \<^verbatim>\<open>autoInit\<close> out.
\<close>

definition demo_config :: config_arg where
  "demo_config = ConfigObject \<lparr>url = ''https://kc.example'', realm = ''demo'', clientId = ''app''\<rparr>"

definition constructed :: KeycloakState where
  "constructed = state_of (initKeycloak None demo_config None)"






text \<open>
  A state whose token claims and profile fields are present but empty wherever a getter
  looks first.
\<close>

definition blank_example :: KeycloakState where
  "blank_example = createKeycloakState
     \<lparr> tokenParsed := Some (no_claims\<lparr> preferred_username := Some [], email_c := Some [],
                                       name_c := Some ''N'', given_name := Some [],
                                       family_name := Some [] \<rparr>),
       profile := Some (no_fields\<lparr> username_p := Some ''p'', email_p := Some ''e'',
                                   firstName_p := Some [], lastName_p := Some [] \<rparr>) \<rparr>"

section \<open>Properties\<close>

lemma token_invariant_create: "token_invariant createKeycloakState"
  by (simp add: token_invariant_def createKeycloakState_def)

lemma token_invariant_updateState:
  "carries_token inst \<Longrightarrow> token_invariant (updateState state inst)"
  by (cases "authenticated inst") (auto simp: token_invariant_def carries_token_def updateState_def)

lemma token_invariant_foldl:
  "token_invariant state \<Longrightarrow> \<forall>inst \<in> set snaps. carries_token inst \<Longrightarrow>
   token_invariant (foldl updateState state snaps)"
proof (induction snaps arbitrary: state)
  case Nil
  then show ?case by simp
next
  case (Cons inst snaps)
  have "token_invariant (updateState state inst)"
    using Cons.prems(2) by (simp add: token_invariant_updateState)
  then show ?case
    using Cons.IH Cons.prems(2) by simp
qed

subsection \<open>State synchronisation\<close>

text \<open>
  C1. Start from the state that \<^verbatim>\<open>createKeycloakState\<close> makes and apply \<^verbatim>\<open>updateState\<close> to any
  sequence of adapter snapshots, each of which carries a token whenever it reports
  \<^verbatim>\<open>authenticated = true\<close>: the resulting state does not have \<^verbatim>\<open>isAuthenticated = true\<close> with the
  access token absent. Every prefix of such a sequence is such a sequence, so this holds
  after each call. Each call writes both fields from the one snapshot it is given.
\<close>

theorem syncFrom_keeps_token_invariant:
  assumes "\<forall>inst \<in> set snaps. carries_token inst"
  shows "token_invariant (foldl updateState createKeycloakState snaps)
    \<and> isAuthenticated (updateState state snapshot) = or_false (authenticated snapshot)
    \<and> token (updateState state snapshot) = token_kc snapshot"
proof -
  have "token_invariant (foldl updateState createKeycloakState snaps)"
    using token_invariant_create assms by (rule token_invariant_foldl)
  then show ?thesis by (simp add: updateState_def)
qed

theorem syncFrom_keeps_token_invariant_witness:
  "carries_token (fresh_adapter\<lparr>authenticated := Some True, token_kc := Some ''t''\<rparr>) \<and>
   carries_token (fresh_adapter\<lparr>authenticated := Some False\<rparr>) \<and>
   token_invariant (foldl updateState createKeycloakState
     [fresh_adapter\<lparr>authenticated := Some True, token_kc := Some ''t''\<rparr>,
      fresh_adapter\<lparr>authenticated := Some False\<rparr>])"
proof -
  have h: "\<forall>inst \<in> set [fresh_adapter\<lparr>authenticated := Some True, token_kc := Some ''t''\<rparr>,
                    fresh_adapter\<lparr>authenticated := Some False\<rparr>]. carries_token inst"
    by (simp add: carries_token_def fresh_adapter_def)
  from syncFrom_keeps_token_invariant [OF h] h show ?thesis by simp
qed

subsection \<open>The logout event\<close>

text \<open>
  C2, as the code has it. When the adapter fires its logout event, the handler sets
  \<^verbatim>\<open>isAuthenticated\<close> to false and clears the profile, and writes nothing else: the access,
  id and refresh tokens and their parsed claims keep the values they had before the event.
\<close>

theorem logout_event_effect:
  "fst (fire callbacks state AuthLogout) = state\<lparr>isAuthenticated := False, profile := None\<rparr>
   \<and> isAuthenticated (fst (fire callbacks state AuthLogout)) = False
   \<and> profile (fst (fire callbacks state AuthLogout)) = None
   \<and> token (fst (fire callbacks state AuthLogout)) = token state
   \<and> tokenParsed (fst (fire callbacks state AuthLogout)) = tokenParsed state
   \<and> idToken (fst (fire callbacks state AuthLogout)) = idToken state
   \<and> idTokenParsed (fst (fire callbacks state AuthLogout)) = idTokenParsed state
   \<and> refreshToken (fst (fire callbacks state AuthLogout)) = refreshToken state
   \<and> refreshTokenParsed (fst (fire callbacks state AuthLogout)) = refreshTokenParsed state"
  by (simp add: onAuthLogout_def)

text \<open>
  C2 as stated fails: a state that holds the access token \<^verbatim>\<open>'access'\<close> still holds it after
  the logout event.
\<close>

theorem logout_event_counterexample:
  "token (fst (fire None
     (createKeycloakState\<lparr>isAuthenticated := True, token := Some ''access''\<rparr>) AuthLogout))
   = Some ''access''
   \<and> token (fst (fire None
     (createKeycloakState\<lparr>isAuthenticated := True, token := Some ''access''\<rparr>) AuthLogout))
   \<noteq> None"
  by (simp add: onAuthLogout_def createKeycloakState_def)

subsection \<open>init\<close>











subsection \<open>updateToken\<close>




subsection \<open>Readiness\<close>

lemma step_isReady:
  "isReady (step callbacks state a) = (isReady state \<or> is_ready_event a)"
proof (cases a)
  case (Event ev)
  then show ?thesis
    by (cases ev)
       (simp_all add: onReady_def onAuthSuccess_def onAuthError_def onAuthRefreshSuccess_def
          onAuthRefreshError_def onAuthLogout_def onTokenExpired_def updateState_def)
next
  case (InitBegin options)
  then show ?thesis by (simp add: init_begin_def split: option.split)
next
  case (InitSettle outcome inst)
  then show ?thesis
    by (cases outcome) (simp_all add: init_settle_def updateState_def split: sum.split)
next
  case (UpdateTokenBegin mv)
  then show ?thesis by (simp add: updateToken_begin_def split: option.split)
next
  case (UpdateTokenSettle outcome inst)
  then show ?thesis
    by (cases outcome) (simp_all add: updateToken_settle_def updateState_def split: sum.split)
next
  case LoadUserProfileBegin
  then show ?thesis by (simp add: loadUserProfile_begin_def split: option.split)
next
  case (LoadUserProfileSettle outcome)
  then show ?thesis
    by (cases outcome) (simp_all add: loadUserProfile_settle_def split: sum.split)
next
  case ClearTokenBegin
  then show ?thesis by (simp add: clearToken_begin_def split: option.split)
next
  case (ClearTokenFinish inst)
  then show ?thesis by (simp add: clearToken_finish_def updateState_def)
qed (simp_all add: login_def logout_def register_def accountManagement_def createLoginUrl_def
      createLogoutUrl_def createRegisterUrl_def createAccountUrl_def delegate_def
      split: option.split)

lemma run_isReady:
  "isReady (run callbacks state actions) = (isReady state \<or> list_ex is_ready_event actions)"
  unfolding run_def
  by (induction actions arbitrary: state) (auto simp: step_isReady)

lemma init_isReady:
  "isReady (fst (init callbacks state options meanwhile outcome inst)) =
     (isReady state \<or> (instance_ref state \<noteq> None \<and> list_ex is_ready_event meanwhile))"
  by (cases outcome)
     (auto simp: init_def init_begin_def init_settle_def run_isReady updateState_def
           split: option.split sum.split)

lemma initKeycloak_isReady:
  "isReady (state_of (initKeycloak (Some existing) config callbacks)) = isReady (state_of existing)"
  by (simp add: initKeycloak_def split: option.split)

text \<open>
  C5. \<^verbatim>\<open>isReady\<close> is false in a new state and in a newly constructed facade. After any
  sequence of adapter events and facade operations it is true exactly when it was true
  before or the adapter's ready event is among them: so it is set only by that event, and
  once true it stays true, through every further event and operation, through a repeated
  \<^verbatim>\<open>init\<close>, and through a repeated \<^verbatim>\<open>initKeycloak\<close>.
\<close>

theorem isReady_monotonic:
  "isReady createKeycloakState = False
   \<and> isReady (state_of (initKeycloak None config callbacks)) = False
   \<and> isReady (run callbacks state actions) = (isReady state \<or> list_ex is_ready_event actions)
   \<and> (isReady state \<longrightarrow> isReady (run callbacks state actions))
   \<and> (isReady state \<longrightarrow> isReady (fst (init callbacks state options meanwhile outcome inst)))
   \<and> isReady (state_of (initKeycloak (Some existing) config callbacks)) = isReady (state_of existing)"
proof -
  have "isReady createKeycloakState = False"
    by (simp add: createKeycloakState_def)
  moreover have "isReady (state_of (initKeycloak None config callbacks)) = False"
    by (simp add: initKeycloak_def createKeycloakState_def)
  ultimately show ?thesis
    by (simp add: run_isReady init_isReady initKeycloak_isReady)
qed

text \<open>
  The ready event makes the constructed facade ready, and a following \<^verbatim>\<open>init\<close> that fails,
  with an authentication error and a logout in between, leaves it ready.
\<close>

theorem isReady_monotonic_witness:
  "isReady (run None constructed [Event (Ready (Some False) fresh_adapter)])
   \<and> isReady (run None (run None constructed [Event (Ready (Some False) fresh_adapter)])
        [InitBegin None, Event (AuthError None),
         InitSettle (Rejected (OtherValue ''boom'')) fresh_adapter, Event AuthLogout])
   \<and> isReady (fst (init None (run None constructed [Event (Ready (Some False) fresh_adapter)])
        None [Event AuthRefreshError] (Rejected (OtherValue ''boom'')) fresh_adapter))"
proof -
  have h: "isReady (run None constructed [Event (Ready (Some False) fresh_adapter)])"
    by (simp add: run_def onReady_def updateState_def)
  from isReady_monotonic [of undefined None
      "run None constructed [Event (Ready (Some False) fresh_adapter)]"
      "[InitBegin None, Event (AuthError None),
        InitSettle (Rejected (OtherValue ''boom'')) fresh_adapter, Event AuthLogout]"
      None "[Event AuthRefreshError]" "Rejected (OtherValue ''boom'')" fresh_adapter] h
  show ?thesis by blast
qed

subsection \<open>loadUserProfile\<close>




subsection \<open>The derived identity getters\<close>

text \<open>
  C7, as the code has it. In every state where the parsed access token and the profile are
  both present: if the token's \<^verbatim>\<open>preferred_username\<close> is present and not the empty string,
  the derived username is that claim; otherwise it is the profile's username; so whenever
  the derived username is not the token's claim, that claim is absent or empty. With the
  token claim \<^verbatim>\<open>'tok_user'\<close> and the profile username \<^verbatim>\<open>'prof_user'\<close> the result is
  \<^verbatim>\<open>'tok_user'\<close>.
\<close>

theorem username_prefers_token:
  assumes "tokenParsed state = Some claims" and "profile state = Some prof"
  shows "(truthy (preferred_username claims) \<longrightarrow> username state = preferred_username claims)
    \<and> (\<not> truthy (preferred_username claims) \<longrightarrow> username state = username_p prof)
    \<and> (username state \<noteq> preferred_username claims \<longrightarrow>
          preferred_username claims = None \<or> preferred_username claims = Some [])
    \<and> username (createKeycloakState
          \<lparr> tokenParsed := Some (no_claims\<lparr>preferred_username := Some ''tok_user''\<rparr>),
            profile := Some (no_fields\<lparr>username_p := Some ''prof_user''\<rparr>) \<rparr>) = Some ''tok_user''"
  using assms
  by (cases "preferred_username claims")
     (auto simp: username_def js_or_def no_claims_def no_fields_def createKeycloakState_def)

text \<open>
  Token claim \<^verbatim>\<open>'alice'\<close>, profile username \<^verbatim>\<open>'bob'\<close>: the username is \<^verbatim>\<open>'alice'\<close>. Token
  without the claim, profile username \<^verbatim>\<open>'bob'\<close>: the username is \<^verbatim>\<open>'bob'\<close>.
\<close>

theorem username_prefers_token_witness:
  "tokenParsed (createKeycloakState
      \<lparr> tokenParsed := Some (no_claims\<lparr>preferred_username := Some ''alice''\<rparr>),
        profile := Some (no_fields\<lparr>username_p := Some ''bob''\<rparr>) \<rparr>)
     = Some (no_claims\<lparr>preferred_username := Some ''alice''\<rparr>)
   \<and> profile (createKeycloakState
      \<lparr> tokenParsed := Some (no_claims\<lparr>preferred_username := Some ''alice''\<rparr>),
        profile := Some (no_fields\<lparr>username_p := Some ''bob''\<rparr>) \<rparr>)
     = Some (no_fields\<lparr>username_p := Some ''bob''\<rparr>)
   \<and> truthy (preferred_username (no_claims\<lparr>preferred_username := Some ''alice''\<rparr>))
   \<and> username (createKeycloakState
      \<lparr> tokenParsed := Some (no_claims\<lparr>preferred_username := Some ''alice''\<rparr>),
        profile := Some (no_fields\<lparr>username_p := Some ''bob''\<rparr>) \<rparr>) = Some ''alice''
   \<and> tokenParsed (createKeycloakState
      \<lparr> tokenParsed := Some no_claims,
        profile := Some (no_fields\<lparr>username_p := Some ''bob''\<rparr>) \<rparr>) = Some no_claims
   \<and> profile (createKeycloakState
      \<lparr> tokenParsed := Some no_claims,
        profile := Some (no_fields\<lparr>username_p := Some ''bob''\<rparr>) \<rparr>)
     = Some (no_fields\<lparr>username_p := Some ''bob''\<rparr>)
   \<and> \<not> truthy (preferred_username no_claims)
   \<and> username (createKeycloakState
      \<lparr> tokenParsed := Some no_claims,
        profile := Some (no_fields\<lparr>username_p := Some ''bob''\<rparr>) \<rparr>) = Some ''bob''
   \<and> username (createKeycloakState
      \<lparr> tokenParsed := Some no_claims,
        profile := Some (no_fields\<lparr>username_p := Some ''bob''\<rparr>) \<rparr>)
     \<noteq> preferred_username no_claims
   \<and> preferred_username no_claims = None"
proof -
  let ?claims = "no_claims\<lparr>preferred_username := Some ''alice''\<rparr>"
  let ?prof = "no_fields\<lparr>username_p := Some ''bob''\<rparr>"
  let ?state = "createKeycloakState\<lparr>tokenParsed := Some ?claims, profile := Some ?prof\<rparr>"
  let ?bare = "createKeycloakState\<lparr>tokenParsed := Some no_claims, profile := Some ?prof\<rparr>"
  have t: "tokenParsed ?state = Some ?claims" by simp
  have p: "profile ?state = Some ?prof" by simp
  have y: "truthy (preferred_username ?claims)" by simp
  have t': "tokenParsed ?bare = Some no_claims" by simp
  have p': "profile ?bare = Some ?prof" by simp
  have n: "preferred_username no_claims = None" "username_p ?prof = Some ''bob''"
    by (simp_all add: no_claims_def no_fields_def)
  from username_prefers_token [OF t p] username_prefers_token [OF t' p'] t p y t' p' n
  show ?thesis by simp
qed

text \<open>
  C7 as stated fails: with the token claim present as the empty string and the profile
  username \<^verbatim>\<open>'p'\<close>, both are present and differ, and the derived username is \<^verbatim>\<open>'p'\<close>, not
  the token's claim.
\<close>

theorem username_token_wins_counterexample:
  "tokenParsed (createKeycloakState
      \<lparr> tokenParsed := Some (no_claims\<lparr>preferred_username := Some []\<rparr>),
        profile := Some (no_fields\<lparr>username_p := Some ''p''\<rparr>) \<rparr>)
     = Some (no_claims\<lparr>preferred_username := Some []\<rparr>)
   \<and> preferred_username (no_claims\<lparr>preferred_username := Some []\<rparr>) = Some []
   \<and> username (createKeycloakState
      \<lparr> tokenParsed := Some (no_claims\<lparr>preferred_username := Some []\<rparr>),
        profile := Some (no_fields\<lparr>username_p := Some ''p''\<rparr>) \<rparr>) = Some ''p''
   \<and> username (createKeycloakState
      \<lparr> tokenParsed := Some (no_claims\<lparr>preferred_username := Some []\<rparr>),
        profile := Some (no_fields\<lparr>username_p := Some ''p''\<rparr>) \<rparr>) \<noteq> Some []"
  by (simp add: username_def js_or_def no_fields_def)

text \<open>
  C9, as the code has it. A getter skips the source it looks at first when that source is
  present but empty, and yields what the other source holds: the token's
  \<^verbatim>\<open>preferred_username\<close> for \<^verbatim>\<open>username\<close>, the token's \<^verbatim>\<open>email\<close> for \<^verbatim>\<open>email\<close>, the profile's
  \<^verbatim>\<open>firstName\<close> for \<^verbatim>\<open>firstName\<close> and \<^verbatim>\<open>fullName\<close>, the profile's \<^verbatim>\<open>lastName\<close> for \<^verbatim>\<open>lastName\<close> and
  \<^verbatim>\<open>fullName\<close>. The source a getter looks at second is handed out as it is: an empty
  \<^verbatim>\<open>given_name\<close> or \<^verbatim>\<open>family_name\<close> claim is the result, as the empty string, when the
  profile's field is absent or empty. With \<^verbatim>\<open>preferred_username = ''\<close> and profile username
  \<^verbatim>\<open>'p'\<close> the username is \<^verbatim>\<open>'p'\<close>; with profile \<^verbatim>\<open>firstName = ''\<close> the full name is the token's
  \<^verbatim>\<open>name\<close> claim.
\<close>

theorem empty_first_choice_falls_back:
  "(chain (tokenParsed state) preferred_username = Some [] \<longrightarrow>
      username state = chain (profile state) username_p)
   \<and> (chain (tokenParsed state) email_c = Some [] \<longrightarrow>
      email state = chain (profile state) email_p)
   \<and> (chain (profile state) firstName_p = Some [] \<longrightarrow>
      firstName state = chain (tokenParsed state) given_name
      \<and> fullName state = chain (tokenParsed state) name_c)
   \<and> (chain (profile state) lastName_p = Some [] \<longrightarrow>
      lastName state = chain (tokenParsed state) family_name
      \<and> fullName state = chain (tokenParsed state) name_c)
   \<and> (chain (tokenParsed state) given_name = Some [] \<and> \<not> truthy (chain (profile state) firstName_p) \<longrightarrow>
      firstName state = Some [])
   \<and> (chain (tokenParsed state) family_name = Some [] \<and> \<not> truthy (chain (profile state) lastName_p) \<longrightarrow>
      lastName state = Some [])
   \<and> username (createKeycloakState
        \<lparr> tokenParsed := Some (no_claims\<lparr>preferred_username := Some []\<rparr>),
          profile := Some (no_fields\<lparr>username_p := Some ''p''\<rparr>) \<rparr>) = Some ''p''
   \<and> fullName (createKeycloakState
        \<lparr> tokenParsed := Some (no_claims\<lparr>name_c := Some ''A. L.''\<rparr>),
          profile := Some (no_fields\<lparr>firstName_p := Some [], lastName_p := Some ''Lovelace''\<rparr>) \<rparr>)
       = Some ''A. L.''"
proof -
  have t: "template_name (Some []) l = None" "template_name f (Some []) = None" for f l
    by (cases l; simp) (cases f; simp)
  show ?thesis
    by (simp add: username_def email_def firstName_def lastName_def fullName_def js_or_def t
        no_claims_def no_fields_def createKeycloakState_def)
qed

text \<open>One state in which every source that a getter looks at first is present and empty.\<close>

theorem empty_first_choice_falls_back_witness:
  "chain (tokenParsed blank_example) preferred_username = Some []
   \<and> chain (tokenParsed blank_example) email_c = Some []
   \<and> chain (profile blank_example) firstName_p = Some []
   \<and> chain (profile blank_example) lastName_p = Some []
   \<and> chain (tokenParsed blank_example) given_name = Some []
   \<and> chain (tokenParsed blank_example) family_name = Some []
   \<and> \<not> truthy (chain (profile blank_example) firstName_p)
   \<and> \<not> truthy (chain (profile blank_example) lastName_p)
   \<and> username blank_example = Some ''p''
   \<and> email blank_example = Some ''e''
   \<and> firstName blank_example = Some []
   \<and> lastName blank_example = Some []
   \<and> fullName blank_example = Some ''N''"
proof -
  have h: "chain (tokenParsed blank_example) preferred_username = Some []"
      "chain (tokenParsed blank_example) email_c = Some []"
      "chain (profile blank_example) firstName_p = Some []"
      "chain (profile blank_example) lastName_p = Some []"
      "chain (tokenParsed blank_example) given_name = Some []"
      "chain (tokenParsed blank_example) family_name = Some []"
    by (simp_all add: blank_example_def)
  have v: "chain (profile blank_example) username_p = Some ''p''"
      "chain (profile blank_example) email_p = Some ''e''"
      "chain (tokenParsed blank_example) name_c = Some ''N''"
    by (simp_all add: blank_example_def)
  from empty_first_choice_falls_back [of blank_example] h v show ?thesis by simp
qed

text \<open>
  C9 as stated fails for \<^verbatim>\<open>given_name\<close>: with the claim present as the empty string and no
  profile, \<^verbatim>\<open>firstName\<close> is the empty string, while with the claim absent it is absent. The
  empty claim is not treated as absent, and the result is not the other source's value.
\<close>

theorem empty_second_choice_counterexample:
  "chain (tokenParsed (createKeycloakState\<lparr>tokenParsed := Some (no_claims\<lparr>given_name := Some []\<rparr>)\<rparr>))
      given_name = Some []
   \<and> chain (profile (createKeycloakState\<lparr>tokenParsed := Some (no_claims\<lparr>given_name := Some []\<rparr>)\<rparr>))
      firstName_p = None
   \<and> firstName (createKeycloakState\<lparr>tokenParsed := Some (no_claims\<lparr>given_name := Some []\<rparr>)\<rparr>)
      = Some []
   \<and> firstName (createKeycloakState\<lparr>tokenParsed := Some (no_claims\<lparr>given_name := None\<rparr>)\<rparr>)
      = None"
  by (simp add: firstName_def js_or_def createKeycloakState_def)

subsection \<open>The shared-handle accessor\<close>

text \<open>
  C8. \<^verbatim>\<open>useKeycloak\<close> called where nothing was ever provided under the plugin's key (outside
  any application, in a new application, or in one that provides only under other keys)
  throws the \<^verbatim>\<open>Error\<close> with the message that tells to install the plugin; it returns no
  handle.
\<close>

theorem useKeycloak_without_install:
  "useKeycloak None =
     Inl (Error ''Keycloak not initialized. Make sure to install the plugin with app.use(createKeycloakPlugin(config))'')
   \<and> useKeycloak (Some (provides createApp)) = Inl not_installed
   \<and> (provided KEYCLOAK_INJECTION_KEY = None \<longrightarrow> useKeycloak (Some provided) = Inl not_installed)"
  by (simp add: useKeycloak_def inject_def not_installed_def createApp_def)

text \<open>An application that provides a handle only under another key.\<close>

theorem useKeycloak_without_install_witness:
  "(Map.empty(OtherKey ''router'' \<mapsto> Facade)) KEYCLOAK_INJECTION_KEY = None
   \<and> useKeycloak (Some (Map.empty(OtherKey ''router'' \<mapsto> Facade))) = Inl not_installed"
proof -
  have h: "(Map.empty(OtherKey ''router'' \<mapsto> Facade)) KEYCLOAK_INJECTION_KEY = None" by simp
  from useKeycloak_without_install [of "Map.empty(OtherKey ''router'' \<mapsto> Facade)"] h
  show ?thesis by blast
qed

subsection \<open>Plugin installation\<close>






end
